theory Spec2Isabelle
  imports Main
begin

section \<open>Objects, references and outcomes\<close>

text \<open>
  The module \<^verbatim>\<open>redblacktree.py\<close> builds its tree from mutable \<^verbatim>\<open>RBNode\<close> objects that
  point at each other (children and parent) and at one shared sentinel object,
  \<^verbatim>\<open>RedBlackTree.NIL_NODE\<close>. The model keeps the objects in a store, a list of node
  records; a reference is an index into that list and \<open>None\<close> is Python's \<^verbatim>\<open>None\<close>.
  Index 0 is the sentinel. Creating a node appends to the store, so references never
  dangle; nothing is ever taken out of the store (an unlinked node is garbage).

  A node's list of values is kept in the node record. Where the source assigns one node's
  list object to another node (\<^verbatim>\<open>node._values = successor._values\<close>) the model copies
  the list; the node that shared it is unlinked by the same call when that call returns.
\<close>

datatype RBColorEnum = black | NIL | RED

datatype RBDirectionEnum = LEFT | RIGHT

text \<open>The Python values that occur as keys and as stored values.\<close>

datatype pyval = PyNone | PyInt int | PyStr string

type_synonym ref = nat

record RBNode =
  key :: pyval
  vals :: "pyval list"
  color :: RBColorEnum
  parent :: "ref option"
  left :: "ref option"
  right :: "ref option"

datatype exn = AttributeError | TypeError | ValueError | Exception string

text \<open>
  A call returns a value, raises, or (in the model only) runs out of the fuel that bounds
  the depth of the source's recursion.
\<close>

datatype 'a res = Returns 'a | Raises exn | OutOfFuel

definition bnd :: "'a res \<Rightarrow> ('a \<Rightarrow> 'b res) \<Rightarrow> 'b res" where
  "bnd m f = (case m of Returns x \<Rightarrow> f x | Raises e \<Rightarrow> Raises e | OutOfFuel \<Rightarrow> OutOfFuel)"

definition of_sum :: "exn + 'a \<Rightarrow> 'a res" where
  "of_sum r = (case r of Inl e \<Rightarrow> Raises e | Inr x \<Rightarrow> Returns x)"

text \<open>
  The tree object: the three configured callables, the root reference, and the store its
  references point into. A callable returns a boolean or raises.
\<close>

record RedBlackTree =
  key_comparator_function :: "pyval \<Rightarrow> pyval \<Rightarrow> exn + bool"
  key_equals_function :: "pyval \<Rightarrow> pyval \<Rightarrow> exn + bool"
  key_validator_function :: "pyval \<Rightarrow> exn + bool"
  root :: "ref option"
  heap :: "RBNode list"

type_synonym 'a st = "RedBlackTree \<Rightarrow> 'a res \<times> RedBlackTree"

definition sbnd :: "'a st \<Rightarrow> ('a \<Rightarrow> 'b st) \<Rightarrow> 'b st" where
  "sbnd m f t =
     (case m t of
        (Returns x, t') \<Rightarrow> f x t'
      | (Raises e, t') \<Rightarrow> (Raises e, t')
      | (OutOfFuel, t') \<Rightarrow> (OutOfFuel, t'))"

definition ret :: "'a \<Rightarrow> 'a st" where
  "ret x t = (Returns x, t)"

definition raise :: "exn \<Rightarrow> 'a st" where
  "raise e t = (Raises e, t)"

definition rd :: "(RedBlackTree \<Rightarrow> 'a res) \<Rightarrow> 'a st" where
  "rd f t = (f t, t)"

text \<open>Reading and writing an attribute through a reference; on \<^verbatim>\<open>None\<close> both raise.\<close>

definition attr :: "(RBNode \<Rightarrow> 'a) \<Rightarrow> ref option \<Rightarrow> RedBlackTree \<Rightarrow> 'a res" where
  "attr f p t = (case p of None \<Rightarrow> Raises AttributeError | Some r \<Rightarrow> Returns (f (heap t ! r)))"

definition set_attr :: "(RBNode \<Rightarrow> RBNode) \<Rightarrow> ref option \<Rightarrow> unit st" where
  "set_attr f p t =
     (case p of
        None \<Rightarrow> (Raises AttributeError, t)
      | Some r \<Rightarrow> (Returns (), t\<lparr>heap := (heap t)[r := f (heap t ! r)]\<rparr>))"

definition set_root :: "ref option \<Rightarrow> unit st" where
  "set_root p t = (Returns (), t\<lparr>root := p\<rparr>)"

definition truthy :: "ref option \<Rightarrow> bool" where
  "truthy p = (p \<noteq> None)"

section \<open>RBNode\<close>

definition NIL_NODE :: ref where
  "NIL_NODE = 0"

definition RBNode_init ::
  "pyval \<Rightarrow> pyval \<Rightarrow> RBColorEnum \<Rightarrow> ref option \<Rightarrow> ref option \<Rightarrow> ref option \<Rightarrow> ref option st" where
  "RBNode_init k v c p l r t =
     (Returns (Some (length (heap t))),
      t\<lparr>heap := heap t @ [\<lparr>key = k, vals = [] @ [v], color = c, parent = p, left = l, right = r\<rparr>]\<rparr>)"

text \<open>
  \<^verbatim>\<open>RBNode.__eq__\<close> between two node objects: two sentinel-coloured nodes are equal;
  otherwise key, colour and the parents' key and colour are compared.
\<close>

definition RBNode_eq :: "RedBlackTree \<Rightarrow> ref \<Rightarrow> ref \<Rightarrow> bool" where
  "RBNode_eq t a b =
     (let self = heap t ! a; other = heap t ! b in
      if color self = NIL \<and> color self = color other then True
      else
        let parents_are_same =
          (case (parent self, parent other) of
             (Some ps, Some po) \<Rightarrow>
               key (heap t ! ps) = key (heap t ! po) \<and> color (heap t ! ps) = color (heap t ! po)
           | (None, None) \<Rightarrow> True
           | _ \<Rightarrow> False)
        in key self = key other \<and> color self = color other \<and> parents_are_same)"

text \<open>
  The operator \<^verbatim>\<open>==\<close> on two references. With \<^verbatim>\<open>None\<close> on one side neither
  \<^verbatim>\<open>__eq__\<close> applies and Python falls back to identity.
\<close>

definition py_eq :: "RedBlackTree \<Rightarrow> ref option \<Rightarrow> ref option \<Rightarrow> bool" where
  "py_eq t x y =
     (case (x, y) of
        (Some a, Some b) \<Rightarrow> RBNode_eq t a b
      | (None, None) \<Rightarrow> True
      | _ \<Rightarrow> False)"

text \<open>\<^verbatim>\<open>__repr__\<close> shows colour, key and values; the model keeps the three.\<close>

type_synonym repr = "RBColorEnum \<times> pyval \<times> pyval list"

definition RBNode_repr :: "RedBlackTree \<Rightarrow> ref option \<Rightarrow> repr res" where
  "RBNode_repr t self =
     bnd (attr color self t) (\<lambda>c. bnd (attr key self t) (\<lambda>k. bnd (attr vals self t) (\<lambda>vs.
     Returns (c, k, vs))))"

text \<open>
  \<^verbatim>\<open>RBNode.__iter__\<close>: a generator, left subtree, the node, right subtree, descending
  only into children that are not sentinel-coloured. The model collects what the generator
  yields when it is run to its end.
\<close>

fun RBNode_iter :: "nat \<Rightarrow> RedBlackTree \<Rightarrow> ref option \<Rightarrow> repr list res" where
  "RBNode_iter 0 t self = OutOfFuel"
| "RBNode_iter (Suc n) t self =
     bnd (attr left self t) (\<lambda>l. bnd (attr color l t) (\<lambda>cl.
     bnd (if cl \<noteq> NIL then RBNode_iter n t l else Returns []) (\<lambda>ls.
     bnd (RBNode_repr t self) (\<lambda>me.
     bnd (attr right self t) (\<lambda>r. bnd (attr color r t) (\<lambda>cr.
     bnd (if cr \<noteq> NIL then RBNode_iter n t r else Returns []) (\<lambda>rs.
     Returns (ls @ [me] @ rs))))))))"

definition get_children_count :: "RedBlackTree \<Rightarrow> ref option \<Rightarrow> nat res" where
  "get_children_count t self =
     bnd (attr color self t) (\<lambda>c.
     if c = NIL then Returns 0
     else
       bnd (attr left self t) (\<lambda>l. bnd (attr color l t) (\<lambda>cl.
       bnd (attr right self t) (\<lambda>r. bnd (attr color r t) (\<lambda>cr.
       Returns ((if cl \<noteq> NIL then 1 else 0) + (if cr \<noteq> NIL then 1 else 0)))))))"

definition has_children :: "RedBlackTree \<Rightarrow> ref option \<Rightarrow> bool res" where
  "has_children t self = bnd (get_children_count t self) (\<lambda>n. Returns (n \<noteq> 0))"

section \<open>RedBlackTree: construction and configuration\<close>

text \<open>Python's \<^verbatim>\<open><\<close> on two strings compares them code point by code point.\<close>

fun str_lt :: "string \<Rightarrow> string \<Rightarrow> bool" where
  "str_lt [] [] = False"
| "str_lt [] (y # ys) = True"
| "str_lt (x # xs) [] = False"
| "str_lt (x # xs) (y # ys) = (if x = y then str_lt xs ys else (of_char x :: nat) < of_char y)"

definition simple_key_comparator :: "pyval \<Rightarrow> pyval \<Rightarrow> exn + bool" where
  "simple_key_comparator key_one key_two =
     (case (key_one, key_two) of
        (PyInt a, PyInt b) \<Rightarrow> Inr (a < b)
      | (PyStr a, PyStr b) \<Rightarrow> Inr (str_lt a b)
      | _ \<Rightarrow> Inl TypeError)"

definition simple_key_equals :: "pyval \<Rightarrow> pyval \<Rightarrow> exn + bool" where
  "simple_key_equals key_one key_two = Inr (key_one = key_two)"

definition simple_key_validator :: "pyval \<Rightarrow> exn + bool" where
  "simple_key_validator k = Inr (case k of PyInt _ \<Rightarrow> True | _ \<Rightarrow> False)"

text \<open>
  The class attribute \<^verbatim>\<open>NIL_NODE = RBNode(key=None, value=None, color=NIL, parent=None)\<close>
  is the only object in the store when the first tree of a program is constructed, which is
  the case modelled. (A second tree of the same program would share that object, with
  whatever \<^verbatim>\<open>_parent\<close> a rotation of the first tree left in it; only \<^verbatim>\<open>in_order\<close>
  shows that field.)
\<close>

definition NIL_NODE_object :: RBNode where
  "NIL_NODE_object =
     \<lparr>key = PyNone, vals = [] @ [PyNone], color = NIL, parent = None, left = None, right = None\<rparr>"

definition RedBlackTree_init ::
  "(pyval \<Rightarrow> pyval \<Rightarrow> exn + bool) option \<Rightarrow> (pyval \<Rightarrow> pyval \<Rightarrow> exn + bool) option \<Rightarrow>
   (pyval \<Rightarrow> exn + bool) option \<Rightarrow> RedBlackTree" where
  "RedBlackTree_init cmp eq val =
     \<lparr>key_comparator_function = (case cmp of None \<Rightarrow> simple_key_comparator | Some f \<Rightarrow> f),
      key_equals_function = (case eq of None \<Rightarrow> simple_key_equals | Some f \<Rightarrow> f),
      key_validator_function = (case val of None \<Rightarrow> simple_key_validator | Some f \<Rightarrow> f),
      root = None,
      heap = [NIL_NODE_object]\<rparr>"

text \<open>
  \<^verbatim>\<open>validate_key\<close> raises \<^verbatim>\<open>Exception(f"Could not validate key: {key}!")\<close>; the model
  keeps the exception and the fixed part of its message.
\<close>

definition validate_key :: "RedBlackTree \<Rightarrow> pyval \<Rightarrow> bool res" where
  "validate_key t k =
     bnd (of_sum (key_validator_function t k)) (\<lambda>ok.
     if \<not> ok then Raises (Exception ''Could not validate key'') else Returns True)"

section \<open>Lookup and navigation\<close>

text \<open>
  \<^verbatim>\<open>find_node\<close> returns a pair (node, direction) from \<^verbatim>\<open>inner_find\<close>, the bare
  sentinel object when the tree is empty, and \<^verbatim>\<open>None\<close> if \<^verbatim>\<open>inner_find\<close> falls
  through its last \<^verbatim>\<open>elif\<close>.
\<close>

datatype find_result = Tuple "ref option" "RBDirectionEnum option" | Node ref | NoneValue

fun inner_find :: "nat \<Rightarrow> RedBlackTree \<Rightarrow> pyval \<Rightarrow> bool \<Rightarrow> ref option \<Rightarrow> find_result res" where
  "inner_find 0 t k to_nil node = OutOfFuel"
| "inner_find (Suc n) t k to_nil node =
     (if \<not> truthy node then Returns (Tuple None None)
      else if py_eq t node (Some NIL_NODE) then Returns (Tuple None None)
      else
        bnd (attr key node t) (\<lambda>nk. bnd (of_sum (key_equals_function t k nk)) (\<lambda>same.
        if same then Returns (Tuple node None)
        else
          bnd (of_sum (key_comparator_function t k nk)) (\<lambda>less1.
          if \<not> less1 then
            bnd (attr right node t) (\<lambda>r.
            if to_nil \<and> py_eq t r (Some NIL_NODE) then Returns (Tuple node (Some RIGHT))
            else inner_find n t k to_nil r)
          else
            bnd (of_sum (key_comparator_function t k nk)) (\<lambda>less2.
            if less2 then
              bnd (attr left node t) (\<lambda>l.
              if to_nil \<and> py_eq t l (Some NIL_NODE) then Returns (Tuple node (Some LEFT))
              else inner_find n t k to_nil l)
            else Returns NoneValue)))))"

definition find_node :: "nat \<Rightarrow> RedBlackTree \<Rightarrow> pyval \<Rightarrow> bool \<Rightarrow> find_result res" where
  "find_node fuel t k to_nil =
     (if truthy (root t) then inner_find fuel t k to_nil (root t) else Returns (Node NIL_NODE))"

text \<open>
  \<^verbatim>\<open>a, b = self.find_node(...)\<close>. A pair unpacks; \<^verbatim>\<open>None\<close> is not iterable; a node
  object is iterated through \<^verbatim>\<open>RBNode.__iter__\<close>, and anything but two yielded items is a
  \<^verbatim>\<open>ValueError\<close>. Two yielded items would be two strings, and each of the three callers
  (\<^verbatim>\<open>add\<close>, \<^verbatim>\<open>remove_key\<close>, \<^verbatim>\<open>remove_value\<close>) then takes a node attribute of a
  string, which raises \<^verbatim>\<open>AttributeError\<close>.
\<close>

definition unpack_find ::
  "nat \<Rightarrow> RedBlackTree \<Rightarrow> find_result \<Rightarrow> (ref option \<times> RBDirectionEnum option) res" where
  "unpack_find fuel t fr =
     (case fr of
        Tuple a b \<Rightarrow> Returns (a, b)
      | NoneValue \<Rightarrow> Raises TypeError
      | Node r \<Rightarrow>
          bnd (RBNode_iter fuel t (Some r)) (\<lambda>items.
          if length items = 2 then Raises AttributeError else Raises ValueError))"

definition contains :: "nat \<Rightarrow> RedBlackTree \<Rightarrow> pyval \<Rightarrow> bool res" where
  "contains fuel t k =
     bnd (find_node fuel t k False) (\<lambda>fr.
     case fr of
       Tuple a b \<Rightarrow> Returns (truthy a)
     | Node r \<Rightarrow> Raises TypeError
     | NoneValue \<Rightarrow> Raises TypeError)"

text \<open>\<^verbatim>\<open>RedBlackTree.__iter__\<close>: nothing for an empty tree, else the root's iteration.\<close>

definition RedBlackTree_iter :: "nat \<Rightarrow> RedBlackTree \<Rightarrow> repr list res" where
  "RedBlackTree_iter fuel t = (if \<not> truthy (root t) then Returns [] else RBNode_iter fuel t (root t))"

definition get_child_node :: "RedBlackTree \<Rightarrow> ref option \<Rightarrow> ref option res" where
  "get_child_node t node =
     bnd (attr left node t) (\<lambda>l.
     if \<not> py_eq t l (Some NIL_NODE) then Returns l else attr right node t)"

definition get_parent_node :: "RedBlackTree \<Rightarrow> ref option \<Rightarrow> ref option" where
  "get_parent_node t node = (case node of None \<Rightarrow> None | Some r \<Rightarrow> parent (heap t ! r))"

fun get_minimum_node :: "nat \<Rightarrow> RedBlackTree \<Rightarrow> ref option \<Rightarrow> ref option res" where
  "get_minimum_node 0 t node = OutOfFuel"
| "get_minimum_node (Suc n) t node =
     bnd (attr left node t) (\<lambda>l.
     if \<not> py_eq t l (Some NIL_NODE) then get_minimum_node n t l else Returns node)"

text \<open>\<^verbatim>\<open>get_sibling_node\<close> returns a pair, or \<^verbatim>\<open>None\<close> for a node without a parent.\<close>

definition get_sibling_node ::
  "RedBlackTree \<Rightarrow> ref option \<Rightarrow> (ref option \<times> RBDirectionEnum) option res" where
  "get_sibling_node t node =
     (let parent_node = get_parent_node t node in
      if truthy parent_node then
        bnd (attr left parent_node t) (\<lambda>l.
        if py_eq t l node then bnd (attr right parent_node t) (\<lambda>r. Returns (Some (r, RIGHT)))
        else Returns (Some (l, LEFT)))
      else Returns None)"

text \<open>Unpacking or subscripting the result; on \<^verbatim>\<open>None\<close> both are a \<^verbatim>\<open>TypeError\<close>.\<close>

definition sibling_pair :: "RedBlackTree \<Rightarrow> ref option \<Rightarrow> (ref option \<times> RBDirectionEnum) res" where
  "sibling_pair t node =
     bnd (get_sibling_node t node) (\<lambda>r. case r of None \<Rightarrow> Raises TypeError | Some p \<Rightarrow> Returns p)"

definition get_uncle_node :: "RedBlackTree \<Rightarrow> ref option \<Rightarrow> ref option res" where
  "get_uncle_node t node =
     bnd (sibling_pair t (get_parent_node t node)) (\<lambda>p. Returns (fst p))"

text \<open>
  \<^verbatim>\<open>is_node_color\<close> is \<^verbatim>\<open>all(op(color, node._color) for node in nodes)\<close>: it stops at
  the first node that fails, before reading the colour of the next.
\<close>

fun is_node_color ::
  "RedBlackTree \<Rightarrow> RBColorEnum \<Rightarrow> (RBColorEnum \<Rightarrow> RBColorEnum \<Rightarrow> bool) \<Rightarrow> ref option list \<Rightarrow> bool res" where
  "is_node_color t c opr [] = Returns True"
| "is_node_color t c opr (node # nodes) =
     bnd (attr color node t) (\<lambda>nc. if opr c nc then is_node_color t c opr nodes else Returns False)"

definition is_node_black :: "RedBlackTree \<Rightarrow> ref option list \<Rightarrow> bool res" where
  "is_node_black t nodes = is_node_color t black (=) nodes"

definition is_node_red :: "RedBlackTree \<Rightarrow> ref option list \<Rightarrow> bool res" where
  "is_node_red t nodes = is_node_color t RED (=) nodes"

definition is_node_not_red :: "RedBlackTree \<Rightarrow> ref option list \<Rightarrow> bool res" where
  "is_node_not_red t nodes = is_node_color t RED (\<noteq>) nodes"

definition node_comparator :: "RedBlackTree \<Rightarrow> ref option \<Rightarrow> ref option \<Rightarrow> bool res" where
  "node_comparator t node_one node_two =
     bnd (attr key node_one t) (\<lambda>k1. bnd (attr key node_two t) (\<lambda>k2.
     of_sum (key_comparator_function t k1 k2)))"

section \<open>Traversal and validation\<close>

text \<open>
  \<^verbatim>\<open>in_order\<close> lists \<^verbatim>\<open>[key, values, parent, color]\<close> for every object it is given
  that is truthy; a node object is always truthy, the sentinel included.
\<close>

type_synonym entry = "pyval \<times> pyval list \<times> ref option \<times> RBColorEnum"

fun in_order :: "nat \<Rightarrow> RedBlackTree \<Rightarrow> ref option \<Rightarrow> entry list res" where
  "in_order 0 t node = OutOfFuel"
| "in_order (Suc n) t node =
     (if truthy node then
        bnd (attr left node t) (\<lambda>l. bnd (in_order n t l) (\<lambda>ls.
        bnd (attr key node t) (\<lambda>k. bnd (attr vals node t) (\<lambda>vs.
        bnd (attr parent node t) (\<lambda>p. bnd (attr color node t) (\<lambda>c.
        bnd (attr right node t) (\<lambda>r. bnd (in_order n t r) (\<lambda>rs.
        Returns (ls @ [(k, vs, p, c)] @ rs)))))))))
      else Returns [])"

text \<open>
  \<^verbatim>\<open>is_set_correctly\<close>. Its last statement is
  \<^verbatim>\<open>return all([right, left, green_count_right == green_count_left]),\<close> with the sum of
  the counts on the following line: the \<^verbatim>\<open>return\<close> ends at the comma, so what is
  returned there is a tuple of one element.
\<close>

datatype check_result = Tuple2 bool int | Tuple1 bool

definition unpack_check :: "check_result \<Rightarrow> (bool \<times> int) res" where
  "unpack_check r = (case r of Tuple2 b n \<Rightarrow> Returns (b, n) | Tuple1 b \<Rightarrow> Raises ValueError)"

definition truthy_and_red :: "RedBlackTree \<Rightarrow> ref option \<Rightarrow> bool res" where
  "truthy_and_red t c = (if truthy c then is_node_red t [c] else Returns False)"

definition has_red_child :: "RedBlackTree \<Rightarrow> ref option \<Rightarrow> bool res" where
  "has_red_child t node =
     bnd (attr left node t) (\<lambda>l. bnd (truthy_and_red t l) (\<lambda>left_red.
     if left_red then Returns True
     else bnd (attr right node t) (\<lambda>r. truthy_and_red t r)))"

fun is_set_correctly :: "nat \<Rightarrow> RedBlackTree \<Rightarrow> ref option \<Rightarrow> check_result res" where
  "is_set_correctly 0 t node = OutOfFuel"
| "is_set_correctly (Suc n) t node =
     (if \<not> truthy node then Returns (Tuple2 True 1)
      else
        bnd (if \<not> truthy (get_parent_node t node) then is_node_red t [node] else Returns False)
          (\<lambda>red_root.
        if red_root then Returns (Tuple2 False 0)
        else
          bnd (is_node_red t [node]) (\<lambda>red.
          bnd (if red then has_red_child t node else Returns False) (\<lambda>red_red.
          if red_red then Returns (Tuple2 False (- 1))
          else
            bnd (attr right node t) (\<lambda>r. bnd (is_set_correctly n t r) (\<lambda>rr.
            bnd (unpack_check rr) (\<lambda>(right_ok, green_count_right).
            bnd (attr left node t) (\<lambda>l. bnd (is_set_correctly n t l) (\<lambda>lr.
            bnd (unpack_check lr) (\<lambda>(left_ok, green_count_left).
            Returns (Tuple1 (right_ok \<and> left_ok \<and> green_count_right = green_count_left))))))))))))"

section \<open>Rotation and the insertion balancer\<close>

definition out_of_fuel :: "'a st" where
  "out_of_fuel t = (OutOfFuel, t)"

definition priv_update_parent :: "ref option \<Rightarrow> ref option \<Rightarrow> ref option \<Rightarrow> unit st" where
  "priv_update_parent node old_child_node new_parent_node =
     sbnd (set_attr (\<lambda>n. n\<lparr>parent := new_parent_node\<rparr>) node) (\<lambda>_.
     if truthy new_parent_node then
       sbnd (rd (\<lambda>t. node_comparator t old_child_node new_parent_node)) (\<lambda>is_less.
       if is_less then set_attr (\<lambda>n. n\<lparr>left := node\<rparr>) new_parent_node
       else set_attr (\<lambda>n. n\<lparr>right := node\<rparr>) new_parent_node)
     else set_root node)"

definition rotate ::
  "RBDirectionEnum \<Rightarrow> ref option \<Rightarrow> ref option \<Rightarrow> ref option \<Rightarrow> bool \<Rightarrow> unit st" where
  "rotate direction node parent_node grandparent_node to_recolor =
     sbnd (rd (\<lambda>t. Returns (get_parent_node t grandparent_node))) (\<lambda>great_grandparent_node.
     sbnd (priv_update_parent parent_node grandparent_node great_grandparent_node) (\<lambda>_.
     sbnd (if direction = LEFT then
             sbnd (rd (attr left parent_node)) (\<lambda>stored.
             sbnd (set_attr (\<lambda>n. n\<lparr>left := grandparent_node\<rparr>) parent_node) (\<lambda>_.
             sbnd (set_attr (\<lambda>n. n\<lparr>right := stored\<rparr>) grandparent_node) (\<lambda>_.
             ret stored)))
           else
             sbnd (rd (attr right parent_node)) (\<lambda>stored.
             sbnd (set_attr (\<lambda>n. n\<lparr>right := grandparent_node\<rparr>) parent_node) (\<lambda>_.
             sbnd (set_attr (\<lambda>n. n\<lparr>left := stored\<rparr>) grandparent_node) (\<lambda>_.
             ret stored)))) (\<lambda>stored_node.
     sbnd (set_attr (\<lambda>n. n\<lparr>parent := parent_node\<rparr>) grandparent_node) (\<lambda>_.
     sbnd (set_attr (\<lambda>n. n\<lparr>parent := grandparent_node\<rparr>) stored_node) (\<lambda>_.
     if to_recolor then
       sbnd (set_attr (\<lambda>n. n\<lparr>color := black\<rparr>) parent_node) (\<lambda>_.
       sbnd (set_attr (\<lambda>n. n\<lparr>color := RED\<rparr>) node) (\<lambda>_.
       set_attr (\<lambda>n. n\<lparr>color := RED\<rparr>) grandparent_node))
     else ret ())))))"

text \<open>
  The guard of \<^verbatim>\<open>try_rebalance\<close>: \<^verbatim>\<open>parent_node is None or grandparent_node is None or
  (is_node_not_red(node) or is_node_not_red(parent_node))\<close>, evaluated left to right.
\<close>

definition nothing_to_rebalance :: "ref option \<Rightarrow> ref option \<Rightarrow> ref option \<Rightarrow> RedBlackTree \<Rightarrow> bool res" where
  "nothing_to_rebalance node parent_node grandparent_node t =
     (if parent_node = None \<or> grandparent_node = None then Returns True
      else bnd (is_node_not_red t [node]) (\<lambda>a.
           if a then Returns True else is_node_not_red t [parent_node]))"

fun try_rebalance :: "nat \<Rightarrow> ref option \<Rightarrow> unit st"
  and priv_recolor :: "nat \<Rightarrow> ref option \<Rightarrow> unit st" where
  "try_rebalance 0 node = out_of_fuel"
| "try_rebalance (Suc n) node =
     sbnd (rd (\<lambda>t. Returns (get_parent_node t node))) (\<lambda>parent_node.
     sbnd (rd (\<lambda>t. Returns (get_parent_node t parent_node))) (\<lambda>grandparent_node.
     sbnd (rd (nothing_to_rebalance node parent_node grandparent_node)) (\<lambda>nothing.
     if nothing then ret ()
     else
       sbnd (rd (\<lambda>t. node_comparator t node parent_node)) (\<lambda>node_less.
       sbnd (rd (\<lambda>t. node_comparator t parent_node grandparent_node)) (\<lambda>parent_less.
       sbnd (rd (\<lambda>t. get_uncle_node t node)) (\<lambda>uncle_node.
       sbnd (rd (\<lambda>t. is_node_not_red t [uncle_node])) (\<lambda>uncle_not_red.
       let node_dir = (if node_less then LEFT else RIGHT);
           parent_node_dir = (if parent_less then LEFT else RIGHT);
           general_direction = (node_dir, parent_node_dir)
       in
       if uncle_not_red then
         (if general_direction = (LEFT, LEFT) then
            rotate RIGHT node parent_node grandparent_node True
          else if general_direction = (RIGHT, RIGHT) then
            rotate LEFT node parent_node grandparent_node True
          else if general_direction = (LEFT, RIGHT) then
            sbnd (rotate RIGHT None node parent_node False) (\<lambda>_.
            rotate LEFT parent_node node grandparent_node True)
          else if general_direction = (RIGHT, LEFT) then
            sbnd (rotate LEFT None node parent_node False) (\<lambda>_.
            rotate RIGHT parent_node node grandparent_node True)
          else raise (Exception ''is not a valid direction!''))
       else priv_recolor n grandparent_node)))))))"
| "priv_recolor 0 grandparent = out_of_fuel"
| "priv_recolor (Suc n) grandparent =
     sbnd (rd (attr right grandparent)) (\<lambda>r.
     sbnd (set_attr (\<lambda>n. n\<lparr>color := black\<rparr>) r) (\<lambda>_.
     sbnd (rd (attr left grandparent)) (\<lambda>l.
     sbnd (set_attr (\<lambda>n. n\<lparr>color := black\<rparr>) l) (\<lambda>_.
     sbnd (rd (\<lambda>t. Returns (\<not> py_eq t grandparent (root t)))) (\<lambda>not_root.
     sbnd (if not_root then set_attr (\<lambda>n. n\<lparr>color := RED\<rparr>) grandparent else ret ()) (\<lambda>_.
     try_rebalance n grandparent))))))"

section \<open>add\<close>

definition add :: "nat \<Rightarrow> pyval \<Rightarrow> pyval \<Rightarrow> unit st" where
  "add fuel k v =
     sbnd (rd (\<lambda>t. validate_key t k)) (\<lambda>valid.
     if \<not> valid then ret ()
     else
       sbnd (rd (\<lambda>t. Returns (root t))) (\<lambda>rt.
       if \<not> truthy rt then
         sbnd (RBNode_init k v black None (Some NIL_NODE) (Some NIL_NODE)) (\<lambda>new_root.
         set_root new_root)
       else
         sbnd (rd (\<lambda>t. bnd (find_node fuel t k True) (unpack_find fuel t))) (\<lambda>(parent_node, node_dir).
         if parent_node = None then ret ()
         else if node_dir = None then set_attr (\<lambda>n. n\<lparr>vals := vals n @ [v]\<rparr>) parent_node
         else
           sbnd (RBNode_init k v RED parent_node (Some NIL_NODE) (Some NIL_NODE)) (\<lambda>new_node.
           sbnd (if node_dir = Some LEFT then set_attr (\<lambda>n. n\<lparr>left := new_node\<rparr>) parent_node
                 else set_attr (\<lambda>n. n\<lparr>right := new_node\<rparr>) parent_node) (\<lambda>_.
           try_rebalance fuel new_node)))))"

section \<open>The deletion balancer\<close>

definition priv_remove_leaf :: "ref option \<Rightarrow> unit st" where
  "priv_remove_leaf node =
     sbnd (rd (\<lambda>t. Returns (get_parent_node t node))) (\<lambda>parent_node.
     sbnd (rd (\<lambda>t. bnd (node_comparator t node parent_node) (\<lambda>is_less.
                    if \<not> is_less then Returns True
                    else bnd (attr key node t) (\<lambda>k1. bnd (attr key parent_node t) (\<lambda>k2.
                         of_sum (key_equals_function t k1 k2)))))) (\<lambda>to_right.
     if to_right then set_attr (\<lambda>n. n\<lparr>right := Some NIL_NODE\<rparr>) parent_node
     else set_attr (\<lambda>n. n\<lparr>left := Some NIL_NODE\<rparr>) parent_node))"

text \<open>
  The test shared by cases 2, 3 and 4:
  \<^verbatim>\<open>is_node_not_red(sibling_node._left, sibling_node._right)\<close>.
\<close>

definition children_not_red :: "ref option \<Rightarrow> RedBlackTree \<Rightarrow> bool res" where
  "children_not_red sibling_node t =
     bnd (attr left sibling_node t) (\<lambda>l. bnd (attr right sibling_node t) (\<lambda>r.
     is_node_not_red t [l, r]))"

text \<open>
  The inner function of \<^verbatim>\<open>__case_6\<close> begins
  \<^verbatim>\<open>parent_node = self.get_parent_node(sibling_node)._color\<close> and
  \<^verbatim>\<open>parent_node_color = parent_node._color\<close>. The first statement binds a member of
  \<^verbatim>\<open>RBColorEnum\<close>, and an enum member has no attribute \<^verbatim>\<open>_color\<close>: the second
  statement raises, and the rotation and the recolouring written after it are never run.
\<close>

definition priv_case_6_rotation :: "ref option \<Rightarrow> RBDirectionEnum \<Rightarrow> unit st" where
  "priv_case_6_rotation sibling_node direction =
     sbnd (rd (\<lambda>t. attr color (get_parent_node t sibling_node) t)) (\<lambda>parent_node.
     raise AttributeError)"

definition priv_case_6 :: "ref option \<Rightarrow> unit st" where
  "priv_case_6 node =
     sbnd (rd (\<lambda>t. sibling_pair t node)) (\<lambda>(sibling_node, direction).
     sbnd (rd (if direction = LEFT then attr left sibling_node else attr right sibling_node))
       (\<lambda>outer_node.
     sbnd (rd (\<lambda>t. bnd (is_node_black t [sibling_node]) (\<lambda>sibling_black.
                    if sibling_black then is_node_red t [outer_node] else Returns False)))
       (\<lambda>applies.
     if applies then priv_case_6_rotation sibling_node direction
     else raise (Exception ''We should have ended here, something is wrong''))))"

definition priv_case_5 :: "ref option \<Rightarrow> unit st" where
  "priv_case_5 node =
     sbnd (rd (\<lambda>t. sibling_pair t node)) (\<lambda>(sibling_node, direction).
     sbnd (rd (if direction = LEFT then attr right sibling_node else attr left sibling_node))
       (\<lambda>closer_node.
     sbnd (rd (if direction = LEFT then attr left sibling_node else attr right sibling_node))
       (\<lambda>outer_node.
     sbnd (rd (\<lambda>t. bnd (is_node_red t [closer_node]) (\<lambda>closer_red.
                    if \<not> closer_red then Returns False
                    else bnd (is_node_not_red t [outer_node]) (\<lambda>outer_not_red.
                         if \<not> outer_not_red then Returns False
                         else is_node_black t [sibling_node]))))
       (\<lambda>applies.
     sbnd (if applies then
             sbnd (rotate direction None closer_node sibling_node False) (\<lambda>_.
             sbnd (set_attr (\<lambda>n. n\<lparr>color := black\<rparr>) closer_node) (\<lambda>_.
             set_attr (\<lambda>n. n\<lparr>color := RED\<rparr>) sibling_node))
           else ret ()) (\<lambda>_.
     priv_case_6 node)))))"

definition priv_case_4 :: "ref option \<Rightarrow> unit st" where
  "priv_case_4 node =
     sbnd (rd (\<lambda>t. Returns (get_parent_node t node))) (\<lambda>parent_node.
     sbnd (rd (\<lambda>t. is_node_red t [parent_node])) (\<lambda>parent_red.
     sbnd (if parent_red then
             sbnd (rd (\<lambda>t. sibling_pair t node)) (\<lambda>(sibling_node, direction).
             sbnd (rd (\<lambda>t. bnd (is_node_black t [sibling_node]) (\<lambda>sibling_black.
                            if sibling_black then children_not_red sibling_node t
                            else Returns False))) (\<lambda>applies.
             if applies then
               sbnd (rd (attr color sibling_node)) (\<lambda>sibling_color.
               sbnd (rd (attr color parent_node)) (\<lambda>parent_color.
               sbnd (set_attr (\<lambda>n. n\<lparr>color := sibling_color\<rparr>) parent_node) (\<lambda>_.
               sbnd (set_attr (\<lambda>n. n\<lparr>color := parent_color\<rparr>) sibling_node) (\<lambda>_.
               ret True))))
             else ret False))
           else ret False) (\<lambda>finished.
     if finished then ret () else priv_case_5 node)))"

fun priv_case_1 :: "nat \<Rightarrow> ref option \<Rightarrow> unit st"
  and priv_case_2 :: "nat \<Rightarrow> ref option \<Rightarrow> unit st"
  and priv_case_3 :: "nat \<Rightarrow> ref option \<Rightarrow> unit st" where
  "priv_case_1 0 node = out_of_fuel"
| "priv_case_1 (Suc n) node =
     sbnd (rd (\<lambda>t. Returns (py_eq t (root t) node))) (\<lambda>is_root.
     if is_root then set_attr (\<lambda>n. n\<lparr>color := black\<rparr>) node
     else priv_case_2 n node)"
| "priv_case_2 0 node = out_of_fuel"
| "priv_case_2 (Suc n) node =
     sbnd (rd (\<lambda>t. Returns (get_parent_node t node))) (\<lambda>parent_node.
     sbnd (rd (\<lambda>t. sibling_pair t node)) (\<lambda>(sibling_node, direction).
     sbnd (rd (\<lambda>t. bnd (is_node_red t [sibling_node]) (\<lambda>sibling_red.
                    if \<not> sibling_red then Returns False
                    else bnd (is_node_black t [parent_node]) (\<lambda>parent_black.
                         if \<not> parent_black then Returns False
                         else children_not_red sibling_node t)))) (\<lambda>applies.
     if applies then
       sbnd (rotate direction None sibling_node parent_node False) (\<lambda>_.
       sbnd (set_attr (\<lambda>n. n\<lparr>color := RED\<rparr>) parent_node) (\<lambda>_.
       sbnd (set_attr (\<lambda>n. n\<lparr>color := black\<rparr>) sibling_node) (\<lambda>_.
       priv_case_1 n node)))
     else priv_case_3 n node)))"
| "priv_case_3 0 node = out_of_fuel"
| "priv_case_3 (Suc n) node =
     sbnd (rd (\<lambda>t. Returns (get_parent_node t node))) (\<lambda>parent_node.
     sbnd (rd (\<lambda>t. sibling_pair t node)) (\<lambda>(sibling_node, direction).
     sbnd (rd (\<lambda>t. bnd (is_node_black t [sibling_node, parent_node]) (\<lambda>both_black.
                    if both_black then children_not_red sibling_node t
                    else Returns False))) (\<lambda>applies.
     if applies then
       sbnd (set_attr (\<lambda>n. n\<lparr>color := RED\<rparr>) sibling_node) (\<lambda>_.
       priv_case_1 n parent_node)
     else priv_case_4 node)))"

definition priv_remove_black_node :: "nat \<Rightarrow> ref option \<Rightarrow> unit st" where
  "priv_remove_black_node fuel node =
     sbnd (priv_case_1 fuel node) (\<lambda>_. priv_remove_leaf node)"

section \<open>Removal\<close>

definition priv_remove :: "nat \<Rightarrow> ref option \<Rightarrow> unit st" where
  "priv_remove fuel node =
     sbnd (rd (\<lambda>t. get_child_node t node)) (\<lambda>child_node.
     sbnd (rd (\<lambda>t. Returns (py_eq t node (root t)))) (\<lambda>is_root.
     if is_root then
       sbnd (rd (\<lambda>t. Returns (\<not> py_eq t child_node (Some NIL_NODE)))) (\<lambda>valid_child.
       if valid_child then
         sbnd (set_root child_node) (\<lambda>_.
         sbnd (rd (\<lambda>t. Returns (root t))) (\<lambda>r1.
         sbnd (set_attr (\<lambda>n. n\<lparr>parent := None\<rparr>) r1) (\<lambda>_.
         sbnd (rd (\<lambda>t. Returns (root t))) (\<lambda>r2.
         set_attr (\<lambda>n. n\<lparr>color := black\<rparr>) r2))))
       else set_root None)
     else
       sbnd (rd (\<lambda>t. is_node_red t [node])) (\<lambda>node_red.
       if node_red then
         sbnd (rd (\<lambda>t. has_children t node)) (\<lambda>with_children.
         if \<not> with_children then priv_remove_leaf node
         else raise (Exception ''Unexpected behavior''))
       else
         sbnd (rd (attr left node)) (\<lambda>left_child_node.
         sbnd (rd (attr right node)) (\<lambda>right_child_node.
         sbnd (rd (\<lambda>t. bnd (has_children t right_child_node) (\<lambda>a.
                        if a then Returns True else has_children t left_child_node))) (\<lambda>grandchildren.
         if grandchildren then
           raise (Exception ''The red child of a black node with 0 or 1 children cannot have children'')
         else
           sbnd (rd (\<lambda>t. is_node_red t [child_node])) (\<lambda>child_red.
           if child_red then
             sbnd (rd (attr key child_node)) (\<lambda>ck.
             sbnd (set_attr (\<lambda>n. n\<lparr>key := ck\<rparr>) node) (\<lambda>_.
             sbnd (rd (attr vals child_node)) (\<lambda>cv.
             sbnd (set_attr (\<lambda>n. n\<lparr>vals := cv\<rparr>) node) (\<lambda>_.
             sbnd (rd (attr left child_node)) (\<lambda>cl.
             sbnd (set_attr (\<lambda>n. n\<lparr>left := cl\<rparr>) node) (\<lambda>_.
             sbnd (rd (attr right child_node)) (\<lambda>cr.
             set_attr (\<lambda>n. n\<lparr>right := cr\<rparr>) node)))))))
           else priv_remove_black_node fuel node)))))))"

definition remove_node :: "nat \<Rightarrow> ref option \<Rightarrow> unit st" where
  "remove_node fuel node =
     sbnd (rd (\<lambda>t. get_children_count t node)) (\<lambda>children.
     sbnd (if children = 2 then
             sbnd (rd (\<lambda>t. bnd (attr right node t) (get_minimum_node fuel t))) (\<lambda>successor.
             sbnd (rd (attr key successor)) (\<lambda>sk.
             sbnd (set_attr (\<lambda>n. n\<lparr>key := sk\<rparr>) node) (\<lambda>_.
             sbnd (rd (attr vals successor)) (\<lambda>sv.
             sbnd (set_attr (\<lambda>n. n\<lparr>vals := sv\<rparr>) node) (\<lambda>_.
             ret successor)))))
           else ret node) (\<lambda>node1.
     priv_remove fuel node1))"

definition remove_key :: "nat \<Rightarrow> pyval \<Rightarrow> unit st" where
  "remove_key fuel k =
     sbnd (rd (\<lambda>t. bnd (find_node fuel t k False) (unpack_find fuel t))) (\<lambda>(node_to_remove, direction).
     if node_to_remove = None then ret ()
     else remove_node fuel node_to_remove)"

definition remove_value :: "nat \<Rightarrow> pyval \<Rightarrow> pyval \<Rightarrow> unit st" where
  "remove_value fuel k v =
     sbnd (rd (\<lambda>t. bnd (find_node fuel t k False) (unpack_find fuel t))) (\<lambda>(node, direction).
     sbnd (rd (attr vals node)) (\<lambda>vs.
     sbnd (if v \<in> set vs then set_attr (\<lambda>n. n\<lparr>vals := remove1 v vs\<rparr>) node else ret ()) (\<lambda>_.
     sbnd (rd (attr vals node)) (\<lambda>vs1.
     if length vs1 = 0 then remove_node fuel node else ret ()))))"

section \<open>Sequences of calls\<close>

text \<open>
  A caller makes one public call after another; a call that raises leaves the tree as the
  exception found it, and the caller may go on. \<open>calls\<close> records each outcome.
\<close>

datatype call = Add pyval pyval | Remove_key pyval | Remove_value pyval pyval

fun do_call :: "nat \<Rightarrow> call \<Rightarrow> unit st" where
  "do_call fuel (Add k v) = add fuel k v"
| "do_call fuel (Remove_key k) = remove_key fuel k"
| "do_call fuel (Remove_value k v) = remove_value fuel k v"

fun calls :: "nat \<Rightarrow> call list \<Rightarrow> RedBlackTree \<Rightarrow> unit res list \<times> RedBlackTree" where
  "calls fuel [] t = ([], t)"
| "calls fuel (c # cs) t =
     (case do_call fuel c t of (r, t1) \<Rightarrow>
        (case calls fuel cs t1 of (rs, t2) \<Rightarrow> (r # rs, t2)))"

definition add_keys :: "int list \<Rightarrow> call list" where
  "add_keys ks = map (\<lambda>k. Add (PyInt k) (PyStr ''v'')) ks"

definition built :: "nat \<Rightarrow> call list \<Rightarrow> RedBlackTree" where
  "built fuel cs = snd (calls fuel cs (RedBlackTree_init None None None))"

section \<open>The red-black invariants, read off the store\<close>

text \<open>
  The tree below a reference, as a value: a sentinel-coloured object is a leaf, any other
  object a node with its colour, key and two subtrees. There is no such value when a child
  reference is \<^verbatim>\<open>None\<close> or the links do not end within the fuel.
\<close>

datatype shape = Sentinel | Real RBColorEnum pyval shape shape

fun shape_of :: "nat \<Rightarrow> RedBlackTree \<Rightarrow> ref option \<Rightarrow> shape option" where
  "shape_of 0 t p = None"
| "shape_of (Suc n) t None = None"
| "shape_of (Suc n) t (Some r) =
     (if color (heap t ! r) = NIL then Some Sentinel
      else
        (case shape_of n t (left (heap t ! r)) of
           None \<Rightarrow> None
         | Some l \<Rightarrow>
             (case shape_of n t (right (heap t ! r)) of
                None \<Rightarrow> None
              | Some rt \<Rightarrow> Some (Real (color (heap t ! r)) (key (heap t ! r)) l rt))))"

definition tree_shape :: "nat \<Rightarrow> RedBlackTree \<Rightarrow> shape option" where
  "tree_shape fuel t = (if root t = None then Some Sentinel else shape_of fuel t (root t))"

fun color_of :: "shape \<Rightarrow> RBColorEnum" where
  "color_of Sentinel = NIL"
| "color_of (Real c k l r) = c"

text \<open>Invariant 0: the root is black, or the tree is empty.\<close>

definition root_black :: "shape \<Rightarrow> bool" where
  "root_black s = (case s of Sentinel \<Rightarrow> True | Real c k l r \<Rightarrow> c = black)"

text \<open>Invariant 3: a red node has no red child.\<close>

fun no_red_red :: "shape \<Rightarrow> bool" where
  "no_red_red Sentinel = True"
| "no_red_red (Real c k l r) =
     ((if c = RED then color_of l \<noteq> RED \<and> color_of r \<noteq> RED else True)
      \<and> no_red_red l \<and> no_red_red r)"

text \<open>
  Invariant 4: the number of black nodes on each path from the root down to a sentinel,
  one number per path, left to right; the invariant is that they are all the same.
\<close>

fun path_blacks :: "shape \<Rightarrow> nat list" where
  "path_blacks Sentinel = [0]"
| "path_blacks (Real c k l r) =
     map (\<lambda>b. b + (if c = black then 1 else 0)) (path_blacks l @ path_blacks r)"

definition equal_black_height :: "shape \<Rightarrow> bool" where
  "equal_black_height s = (length (remdups (path_blacks s)) = 1)"

definition red_black :: "shape \<Rightarrow> bool" where
  "red_black s = (root_black s \<and> no_red_red s \<and> equal_black_height s)"

text \<open>
  The height of the tree as the spec counts it (a full tree of 7 nodes has
  \<open>log2(7)+1 = 3\<close>): the number of nodes on the longest path from the root down to a
  leaf. A tree of \<open>n\<close> nodes that is a linked list has \<open>n\<close> levels.
\<close>

fun levels :: "shape \<Rightarrow> nat" where
  "levels Sentinel = 0"
| "levels (Real c k l r) = Suc (max (levels l) (levels r))"

fun keys_in_order :: "shape \<Rightarrow> pyval list" where
  "keys_in_order Sentinel = []"
| "keys_in_order (Real c k l r) = keys_in_order l @ [k] @ keys_in_order r"

text \<open>
  Trees used below: the empty tree with the default callables, the tree after adding the
  keys 1 to \<open>n\<close> in ascending order, and the tree of a plain list of keys.
\<close>

definition empty_tree :: RedBlackTree where
  "empty_tree = RedBlackTree_init None None None"

definition ascending :: "nat \<Rightarrow> RedBlackTree" where
  "ascending n = built 12 (add_keys (map int [1..<Suc n]))"

definition tree_of :: "int list \<Rightarrow> RedBlackTree" where
  "tree_of ks = built 12 (add_keys ks)"

section \<open>Basic facts about outcomes\<close>

lemmas monad_defs =
  bnd_def sbnd_def ret_def raise_def rd_def attr_def set_attr_def set_root_def of_sum_def
  truthy_def out_of_fuel_def

lemma bnd_Returns_iff: "bnd m f = Returns y \<longleftrightarrow> (\<exists>x. m = Returns x \<and> f x = Returns y)"
  by (cases m) (simp_all add: bnd_def)

lemma attr_Returns_iff: "attr g p t = Returns y \<longleftrightarrow> (\<exists>r. p = Some r \<and> y = g (heap t ! r))"
  by (cases p) (auto simp add: attr_def)

lemma of_sum_Returns_iff: "of_sum s = Returns y \<longleftrightarrow> s = Inr y"
  by (cases s) (simp_all add: of_sum_def)

lemma py_eq_NIL:
  "color (heap t ! NIL_NODE) = NIL \<Longrightarrow>
   py_eq t (Some r) (Some NIL_NODE) = (color (heap t ! r) = NIL)"
  by (auto simp add: py_eq_def RBNode_eq_def Let_def)

section \<open>Insertion\<close>

text \<open>
  C7. A key the configured validator rejects: \<^verbatim>\<open>add\<close> raises the exception of
  \<^verbatim>\<open>validate_key\<close>, and the tree (root and every object of the store) is what it was
  before the call.
\<close>

theorem add_rejected_key:
  "key_validator_function t k = Inr False \<Longrightarrow>
   add fuel k v t = (Raises (Exception ''Could not validate key''), t)"
  by (simp add: add_def validate_key_def monad_defs)

theorem add_rejected_key_witness:
  "add 4 (PyStr ''a'') (PyInt 0) (tree_of [2, 1, 3]) =
   (Raises (Exception ''Could not validate key''), tree_of [2, 1, 3])"
proof -
  have h: "key_validator_function (tree_of [2, 1, 3]) (PyStr ''a'') = Inr False"
    by code_simp
  show ?thesis by (rule add_rejected_key [OF h])
qed

text \<open>
  C8, as amended. Adding 1 to 7 in ascending order to the empty tree with the default
  comparator: every call returns, and after each of them the tree is a red-black tree that
  holds exactly the keys added so far, in ascending order, and has at most 4 levels. Once
  it has three nodes it has fewer levels than nodes, so it is never a linked list.
\<close>

theorem ascending_levels_at_most_4:
  "fst (calls 12 (add_keys [1, 2, 3, 4, 5, 6, 7]) empty_tree) = replicate 7 (Returns ()) \<and>
   list_all
     (\<lambda>n. case tree_shape 12 (ascending n) of
             None \<Rightarrow> False
           | Some s \<Rightarrow>
               keys_in_order s = map PyInt (map int [1..<Suc n]) \<and> red_black s \<and>
               levels s \<le> 4 \<and> (if 3 \<le> n then levels s < n else True))
     [1, 2, 3, 4, 5, 6, 7]"
  by code_simp

text \<open>
  C8, as stated, fails: the bound 3 is the number of levels of a full tree of 7 nodes, and
  a red-black tree is balanced only up to a factor of two. After the sixth and after the
  seventh call the tree has 4 levels (2, 4, 6, 7 is a path from the root to a leaf).
\<close>

theorem ascending_levels_exceed_3:
  "tree_shape 12 (ascending 7) =
     Some (Real black (PyInt 2)
            (Real black (PyInt 1) Sentinel Sentinel)
            (Real RED (PyInt 4)
              (Real black (PyInt 3) Sentinel Sentinel)
              (Real black (PyInt 6)
                (Real RED (PyInt 5) Sentinel Sentinel)
                (Real RED (PyInt 7) Sentinel Sentinel)))) \<and>
   levels (the (tree_shape 12 (ascending 6))) = 4 \<and>
   levels (the (tree_shape 12 (ascending 7))) = 4 \<and>
   \<not> levels (the (tree_shape 12 (ascending 7))) \<le> 3"
  by code_simp

section \<open>The deletion balancer's sixth case\<close>

text \<open>
  C2. Whenever \<^verbatim>\<open>__case_6\<close> finds its condition true (the sibling black, the sibling's
  outer child red), the call raises \<^verbatim>\<open>AttributeError\<close> and leaves every object as it
  was: no rotation, no recolouring, and the deficiency is not resolved.
\<close>

theorem case_6_raises:
  assumes "sibling_pair t node = Returns (sibling_node, direction)"
    and "(if direction = LEFT then attr left sibling_node else attr right sibling_node) t
         = Returns outer_node"
    and "is_node_black t [sibling_node] = Returns True"
    and "is_node_red t [outer_node] = Returns True"
  shows "priv_case_6 node t = (Raises AttributeError, t)"
  using assms
  by (auto simp add: priv_case_6_def priv_case_6_rotation_def monad_defs
      split: option.splits res.splits)

theorem case_6_raises_witness:
  "priv_case_6 (Some 1) (tree_of [1, 2, 3, 4]) = (Raises AttributeError, tree_of [1, 2, 3, 4])"
proof -
  have a: "sibling_pair (tree_of [1, 2, 3, 4]) (Some 1) = Returns (Some 3, RIGHT)"
    by code_simp
  have b: "(if RIGHT = LEFT then attr left (Some 3) else attr right (Some 3)) (tree_of [1, 2, 3, 4])
           = Returns (Some 4)"
    by code_simp
  have c: "is_node_black (tree_of [1, 2, 3, 4]) [Some 3] = Returns True"
    by code_simp
  have d: "is_node_red (tree_of [1, 2, 3, 4]) [Some 4] = Returns True"
    by code_simp
  show ?thesis by (rule case_6_raises [OF a b c d])
qed

section \<open>Sequences of calls and the invariants\<close>

text \<open>
  C1. Add the keys 1 to 10 in ascending order: the tree satisfies the three invariants.
  \<^verbatim>\<open>remove_key(1)\<close> then recolours the sibling of node 1 red (case 3), moves the
  deficiency to the parent, reaches case 6 there and raises. A following
  \<^verbatim>\<open>add(10, ...)\<close> returns normally, and the tree it leaves has paths with 3 and paths
  with 2 black nodes.
\<close>

theorem interrupted_removal_breaks_black_height:
  "(let t10 = tree_of [1, 2, 3, 4, 5, 6, 7, 8, 9, 10];
        (outcomes, t) = calls 12 [Remove_key (PyInt 1), Add (PyInt 10) (PyStr ''w'')] t10
    in (map_option red_black (tree_shape 12 t10), outcomes,
        map_option red_black (tree_shape 12 t), map_option path_blacks (tree_shape 12 t)))
   = (Some True, [Raises AttributeError, Returns ()],
      Some False, Some [3, 3, 2, 2, 3, 3, 3, 3, 3, 3, 3])"
  by code_simp

text \<open>
  C3. Add 1, 2, 3, 4 and remove them in the same order: the first removal raises in case 6,
  and after the four removals the tree still holds the key 1. Where the removals do empty
  the tree (one key), \<^verbatim>\<open>contains\<close> on the empty tree raises \<^verbatim>\<open>TypeError\<close>.
\<close>

theorem round_trip_fails:
  "(let (outcomes, t) =
          calls 8 (add_keys [1, 2, 3, 4] @ map (\<lambda>k. Remove_key (PyInt k)) [1, 2, 3, 4]) empty_tree
    in (outcomes, root t, RedBlackTree_iter 8 t))
   = ([Returns (), Returns (), Returns (), Returns (),
       Raises AttributeError, Returns (), Returns (), Returns ()],
      Some 1, Returns [(black, PyInt 1, [PyStr ''v''])]) \<and>
   (let (outcomes, t) = calls 8 (add_keys [1] @ [Remove_key (PyInt 1)]) empty_tree
    in (outcomes, root t, contains 8 t (PyInt 1)))
   = ([Returns (), Returns ()], None, Raises TypeError)"
  by code_simp

text \<open>
  C4. A tree with one key and one value, for any integer key and any value: removing the key
  returns and leaves the tree empty, and \<^verbatim>\<open>contains\<close> on that tree then raises
  \<^verbatim>\<open>TypeError\<close> (\<^verbatim>\<open>find_node\<close> hands back the sentinel object, which cannot be
  subscripted) instead of returning false.
\<close>

theorem single_node_removed_then_contains_raises:
  "fst (calls (Suc f) [Add (PyInt k) v, Remove_key (PyInt k)] empty_tree)
     = [Returns (), Returns ()] \<and>
   root (snd (calls (Suc f) [Add (PyInt k) v, Remove_key (PyInt k)] empty_tree)) = None \<and>
   contains g (snd (calls (Suc f) [Add (PyInt k) v, Remove_key (PyInt k)] empty_tree)) (PyInt k)
     = Raises TypeError"
  by (simp add: add_def validate_key_def monad_defs RedBlackTree_init_def empty_tree_def
      simple_key_validator_def RBNode_init_def NIL_NODE_def remove_key_def find_node_def
      unpack_find_def py_eq_def RBNode_eq_def NIL_NODE_object_def simple_key_equals_def
      remove_node_def get_children_count_def priv_remove_def get_child_node_def contains_def)

section \<open>Traversal and validation\<close>

text \<open>
  C5. \<^verbatim>\<open>in_order\<close>, which \<^verbatim>\<open>__str__\<close> prints, lists the sentinel once for every
  absent child, with the key \<^verbatim>\<open>None\<close>: three entries for a tree of one key. The
  iterator of the same tree yields the one real node.
\<close>

theorem in_order_lists_sentinels:
  "in_order 4 (tree_of [5]) (root (tree_of [5])) =
     Returns [(PyNone, [PyNone], None, NIL),
              (PyInt 5, [PyStr ''v''], None, black),
              (PyNone, [PyNone], None, NIL)] \<and>
   RedBlackTree_iter 4 (tree_of [5]) = Returns [(black, PyInt 5, [PyStr ''v''])]"
  by code_simp

text \<open>
  C9. \<^verbatim>\<open>is_set_correctly\<close> on the root of a valid tree returns no pair: the call on a
  child returns a tuple of one element, and unpacking it into two names raises
  \<^verbatim>\<open>ValueError\<close>. Shown for the tree of one key and for the tree of 1 to 7; on the
  sentinel itself the result is the one-element tuple.
\<close>

theorem is_set_correctly_raises:
  "red_black (the (tree_shape 12 (tree_of [5]))) \<and>
   is_set_correctly 12 (tree_of [5]) (root (tree_of [5])) = Raises ValueError \<and>
   red_black (the (tree_shape 12 (ascending 7))) \<and>
   is_set_correctly 12 (ascending 7) (root (ascending 7)) = Raises ValueError \<and>
   is_set_correctly 12 (tree_of [5]) (Some NIL_NODE) = Returns (Tuple1 True)"
  by code_simp

section \<open>Looking up and removing an absent key\<close>

text \<open>
  What one step of \<^verbatim>\<open>RBNode.__iter__\<close> that returns tells about the node: both child
  references are objects, and the yielded items are those of the children that are not
  sentinel-coloured around the node's own.
\<close>

lemma RBNode_iter_SucE:
  assumes "RBNode_iter (Suc f) t node = Returns xs"
  obtains r l q ls rs where "node = Some r"
    and "left (heap t ! r) = Some l" and "right (heap t ! r) = Some q"
    and "(if color (heap t ! l) \<noteq> NIL then RBNode_iter f t (Some l) else Returns []) = Returns ls"
    and "(if color (heap t ! q) \<noteq> NIL then RBNode_iter f t (Some q) else Returns []) = Returns rs"
    and "xs = ls @ [(color (heap t ! r), key (heap t ! r), vals (heap t ! r))] @ rs"
proof -
  from assms obtain l0 cl ls me r0 cr rs where
    1: "attr left node t = Returns l0" and 2: "attr color l0 t = Returns cl"
    and 3: "(if cl \<noteq> NIL then RBNode_iter f t l0 else Returns []) = Returns ls"
    and 4: "RBNode_repr t node = Returns me"
    and 5: "attr right node t = Returns r0" and 6: "attr color r0 t = Returns cr"
    and 7: "(if cr \<noteq> NIL then RBNode_iter f t r0 else Returns []) = Returns rs"
    and 8: "xs = ls @ [me] @ rs"
    unfolding RBNode_iter.simps bnd_Returns_iff by blast
  from 1 obtain r where r: "node = Some r" and l0: "l0 = left (heap t ! r)"
    by (auto simp add: attr_Returns_iff)
  from 2 obtain l where l: "l0 = Some l" and cl: "cl = color (heap t ! l)"
    by (auto simp add: attr_Returns_iff)
  from 5 r have r0: "r0 = right (heap t ! r)"
    by (auto simp add: attr_Returns_iff)
  from 6 obtain q where q: "r0 = Some q" and cr: "cr = color (heap t ! q)"
    by (auto simp add: attr_Returns_iff)
  from 4 r have me: "me = (color (heap t ! r), key (heap t ! r), vals (heap t ! r))"
    by (auto simp add: RBNode_repr_def bnd_Returns_iff attr_Returns_iff)
  show thesis
  proof (rule that [of r l q ls rs])
    show "node = Some r" by (rule r)
    show "left (heap t ! r) = Some l" using l0 l by simp
    show "right (heap t ! r) = Some q" using r0 q by simp
    show "(if color (heap t ! l) \<noteq> NIL then RBNode_iter f t (Some l) else Returns []) = Returns ls"
      using 3 [unfolded l cl] .
    show "(if color (heap t ! q) \<noteq> NIL then RBNode_iter f t (Some q) else Returns []) = Returns rs"
      using 7 [unfolded q cr] .
    show "xs = ls @ [(color (heap t ! r), key (heap t ! r), vals (heap t ! r))] @ rs"
      using 8 me by simp
  qed
qed

lemma inner_find_NIL:
  "color (heap t ! NIL_NODE) = NIL \<Longrightarrow> color (heap t ! q) = NIL \<Longrightarrow>
   inner_find f t k b (Some q) \<noteq> Returns (Tuple (Some n) d)"
  by (cases f) (simp_all add: py_eq_NIL truthy_def)

lemma inner_find_found_in_iter:
  assumes nil: "color (heap t ! NIL_NODE) = NIL"
  shows "inner_find f' t k False node = Returns (Tuple (Some n) d) \<Longrightarrow>
         RBNode_iter f t node = Returns xs \<Longrightarrow>
         \<exists>e \<in> set xs. key_equals_function t k (fst (snd e)) = Inr True"
proof (induction f' arbitrary: node f xs)
  case 0
  then show ?case by simp
next
  case (Suc f')
  from Suc.prems(2) obtain f0 where f: "f = Suc f0" by (cases f) auto
  from Suc.prems(2) [unfolded f]
  obtain r l q ls rs where node: "node = Some r"
    and l: "left (heap t ! r) = Some l" and q: "right (heap t ! r) = Some q"
    and ls: "(if color (heap t ! l) \<noteq> NIL then RBNode_iter f0 t (Some l) else Returns []) = Returns ls"
    and rs: "(if color (heap t ! q) \<noteq> NIL then RBNode_iter f0 t (Some q) else Returns []) = Returns rs"
    and xs: "xs = ls @ [(color (heap t ! r), key (heap t ! r), vals (heap t ! r))] @ rs"
    by (rule RBNode_iter_SucE)
  have real: "color (heap t ! r) \<noteq> NIL"
    using Suc.prems(1) nil by (auto simp add: node py_eq_NIL truthy_def)
  show ?case
  proof (cases "key_equals_function t k (key (heap t ! r)) = Inr True")
    case True
    then show ?thesis by (simp add: xs)
  next
    case False
    from Suc.prems(1) False real nil
    consider (R) "inner_find f' t k False (Some q) = Returns (Tuple (Some n) d)"
      | (L) "inner_find f' t k False (Some l) = Returns (Tuple (Some n) d)"
      by (auto simp add: node py_eq_NIL truthy_def bnd_Returns_iff attr_Returns_iff of_sum_Returns_iff l q
          split: if_splits)
    then show ?thesis
    proof cases
      case R
      with inner_find_NIL [OF nil] have "color (heap t ! q) \<noteq> NIL" by blast
      with rs have "RBNode_iter f0 t (Some q) = Returns rs" by simp
      from Suc.IH [OF R this] show ?thesis by (auto simp add: xs)
    next
      case L
      with inner_find_NIL [OF nil] have "color (heap t ! l) \<noteq> NIL" by blast
      with ls have "RBNode_iter f0 t (Some l) = Returns ls" by simp
      from Suc.IH [OF L this] show ?thesis by (auto simp add: xs)
    qed
  qed
qed


lemma inner_find_at_NIL:
  "color (heap t ! NIL_NODE) = NIL \<Longrightarrow> color (heap t ! q) = NIL \<Longrightarrow>
   inner_find (Suc g) t k b (Some q) = Returns (Tuple None None)"
  by (simp add: py_eq_NIL truthy_def)

lemma inner_find_absent:
  assumes nil: "color (heap t ! NIL_NODE) = NIL"
  shows "RBNode_iter f t node = Returns xs \<Longrightarrow> f < f' \<Longrightarrow>
         \<forall>e \<in> set xs. key_equals_function t k (fst (snd e)) = Inr False \<and>
                      \<not> isl (key_comparator_function t k (fst (snd e))) \<Longrightarrow>
         inner_find f' t k False node = Returns (Tuple None None)"
proof (induction f arbitrary: node xs f')
  case 0
  then show ?case by simp
next
  case (Suc f)
  from Suc.prems(1)
  obtain r l q ls rs where node: "node = Some r"
    and l: "left (heap t ! r) = Some l" and q: "right (heap t ! r) = Some q"
    and ls: "(if color (heap t ! l) \<noteq> NIL then RBNode_iter f t (Some l) else Returns []) = Returns ls"
    and rs: "(if color (heap t ! q) \<noteq> NIL then RBNode_iter f t (Some q) else Returns []) = Returns rs"
    and xs: "xs = ls @ [(color (heap t ! r), key (heap t ! r), vals (heap t ! r))] @ rs"
    by (rule RBNode_iter_SucE)
  from Suc.prems(2) obtain g where f': "f' = Suc (Suc g)" and g: "f < Suc g"
    by (cases f'; cases "f' - 1") auto
  from Suc.prems(3) xs
  have eq: "key_equals_function t k (key (heap t ! r)) = Inr False"
    and cmp: "\<not> isl (key_comparator_function t k (key (heap t ! r)))"
    by auto
  from cmp obtain b where b: "key_comparator_function t k (key (heap t ! r)) = Inr b"
    by (cases "key_comparator_function t k (key (heap t ! r))") auto
  have right: "inner_find (Suc g) t k False (Some q) = Returns (Tuple None None)"
  proof (cases "color (heap t ! q) = NIL")
    case True
    then show ?thesis by (rule inner_find_at_NIL [OF nil])
  next
    case False
    with rs have "RBNode_iter f t (Some q) = Returns rs" by simp
    from Suc.IH [OF this g] Suc.prems(3) xs show ?thesis by auto
  qed
  have left: "inner_find (Suc g) t k False (Some l) = Returns (Tuple None None)"
  proof (cases "color (heap t ! l) = NIL")
    case True
    then show ?thesis by (rule inner_find_at_NIL [OF nil])
  next
    case False
    with ls have "RBNode_iter f t (Some l) = Returns ls" by simp
    from Suc.IH [OF this g] Suc.prems(3) xs show ?thesis by auto
  qed
  show ?case
    unfolding f' node
    by (subst inner_find.simps)
       (simp add: truthy_def py_eq_NIL [OF nil] bnd_def attr_def of_sum_def eq b l q left right
          del: inner_find.simps)
qed

lemma unpack_find_Node: "unpack_find fuel t (Node r) \<noteq> Returns p"
  by (cases "RBNode_iter fuel t (Some r)") (simp_all add: unpack_find_def bnd_def)

text \<open>
  C6. A key that no key yielded by the tree's iteration equals (under the configured
  equality): \<^verbatim>\<open>remove_key\<close> leaves the tree object and every object of the store
  exactly as they were, whatever the call's outcome. This covers the empty tree, where the
  iteration yields nothing; there the call raises (unpacking the sentinel object that
  \<^verbatim>\<open>find_node\<close> returns), on a non-empty tree with comparable keys it returns (see C10).
\<close>

theorem remove_key_absent_unchanged:
  assumes nil: "color (heap t ! NIL_NODE) = NIL"
    and it: "RedBlackTree_iter f t = Returns xs"
    and absent: "\<forall>e \<in> set xs. key_equals_function t k (fst (snd e)) \<noteq> Inr True"
  shows "snd (remove_key fuel k t) = t"
proof (cases "bnd (find_node fuel t k False) (unpack_find fuel t)")
  case (Returns p)
  obtain a d where p: "p = (a, d)" by (cases p)
  from Returns obtain fr where fr: "find_node fuel t k False = Returns fr"
    and un: "unpack_find fuel t fr = Returns (a, d)"
    by (auto simp add: bnd_Returns_iff p)
  from un unpack_find_Node have tup: "fr = Tuple a d"
    by (cases fr) (auto simp add: unpack_find_def)
  have "a = None"
  proof (rule ccontr)
    assume "a \<noteq> None"
    then obtain n where n: "a = Some n" by auto
    from fr tup n have root: "root t \<noteq> None"
      and found: "inner_find fuel t k False (root t) = Returns (Tuple (Some n) d)"
      by (auto simp add: find_node_def truthy_def split: if_splits)
    from it root have "RBNode_iter f t (root t) = Returns xs"
      by (simp add: RedBlackTree_iter_def truthy_def)
    from inner_find_found_in_iter [OF nil found this] absent show False by blast
  qed
  with Returns p show ?thesis
    by (simp add: remove_key_def sbnd_def rd_def ret_def)
next
  case (Raises e)
  then show ?thesis by (simp add: remove_key_def sbnd_def rd_def)
next
  case OutOfFuel
  then show ?thesis by (simp add: remove_key_def sbnd_def rd_def)
qed

lemma find_absent:
  assumes nil: "color (heap t ! NIL_NODE) = NIL"
    and nonempty: "root t \<noteq> None"
    and it: "RedBlackTree_iter f t = Returns xs"
    and fuel: "f < fuel"
    and absent: "\<forall>e \<in> set xs. key_equals_function t k (fst (snd e)) = Inr False \<and>
                   \<not> isl (key_comparator_function t k (fst (snd e)))"
  shows "bnd (find_node fuel t k False) (unpack_find fuel t) = Returns (None, None)"
proof -
  from it nonempty have "RBNode_iter f t (root t) = Returns xs"
    by (simp add: RedBlackTree_iter_def truthy_def)
  from inner_find_absent [OF nil this fuel absent] nonempty show ?thesis
    by (simp add: find_node_def truthy_def bnd_def unpack_find_def)
qed

text \<open>
  C10. A non-empty tree and a key that differs from every key of the tree and can be
  compared with each of them: \<^verbatim>\<open>find_node\<close> ends at the sentinel with
  \<^verbatim>\<open>(None, None)\<close>; \<^verbatim>\<open>remove_value\<close> reads \<^verbatim>\<open>node._values\<close> of
  \<^verbatim>\<open>None\<close>, raises \<^verbatim>\<open>AttributeError\<close> and changes nothing, whereas
  \<^verbatim>\<open>remove_key\<close> on the same tree and key returns and changes nothing. Any fuel above
  the one the iteration needed is enough for the lookup.
\<close>

theorem remove_value_absent_raises:
  assumes nil: "color (heap t ! NIL_NODE) = NIL"
    and nonempty: "root t \<noteq> None"
    and it: "RedBlackTree_iter f t = Returns xs"
    and fuel: "f < fuel"
    and absent: "\<forall>e \<in> set xs. key_equals_function t k (fst (snd e)) = Inr False \<and>
                   \<not> isl (key_comparator_function t k (fst (snd e)))"
  shows "remove_value fuel k v t = (Raises AttributeError, t) \<and>
         remove_key fuel k t = (Returns (), t)"
  using find_absent [OF assms]
  by (simp add: remove_value_def remove_key_def sbnd_def rd_def ret_def attr_def)

theorem remove_key_absent_unchanged_witness:
  "snd (remove_key 3 (PyInt 5) (tree_of [2, 1, 3])) = tree_of [2, 1, 3] \<and>
   snd (remove_key 3 (PyInt 5) empty_tree) = empty_tree"
proof -
  have nil: "color (heap (tree_of [2, 1, 3]) ! NIL_NODE) = NIL" by code_simp
  have it: "RedBlackTree_iter 2 (tree_of [2, 1, 3]) =
    Returns [(RED, PyInt 1, [PyStr ''v'']), (black, PyInt 2, [PyStr ''v'']), (RED, PyInt 3, [PyStr ''v''])]"
    by code_simp
  have absent: "\<forall>e \<in> set [(RED, PyInt 1, [PyStr ''v'']), (black, PyInt 2, [PyStr ''v'']), (RED, PyInt 3, [PyStr ''v''])].
     key_equals_function (tree_of [2, 1, 3]) (PyInt 5) (fst (snd e)) \<noteq> Inr True"
    by code_simp
  have nil0: "color (heap empty_tree ! NIL_NODE) = NIL" by code_simp
  have it0: "RedBlackTree_iter 2 empty_tree = Returns []" by code_simp
  have absent0: "\<forall>e \<in> set []. key_equals_function empty_tree (PyInt 5) (fst (snd e)) \<noteq> Inr True"
    by simp
  show ?thesis
    using remove_key_absent_unchanged [OF nil it absent, of 3]
      remove_key_absent_unchanged [OF nil0 it0 absent0, of 3]
    by simp
qed

theorem remove_value_absent_raises_witness:
  "remove_value 3 (PyInt 5) (PyStr ''v'') (tree_of [2, 1, 3]) = (Raises AttributeError, tree_of [2, 1, 3]) \<and>
   remove_key 3 (PyInt 5) (tree_of [2, 1, 3]) = (Returns (), tree_of [2, 1, 3])"
proof -
  have nil: "color (heap (tree_of [2, 1, 3]) ! NIL_NODE) = NIL" by code_simp
  have nonempty: "root (tree_of [2, 1, 3]) \<noteq> None" by code_simp
  have it: "RedBlackTree_iter 2 (tree_of [2, 1, 3]) =
    Returns [(RED, PyInt 1, [PyStr ''v'']), (black, PyInt 2, [PyStr ''v'']), (RED, PyInt 3, [PyStr ''v''])]"
    by code_simp
  have fuel: "(2::nat) < 3" by simp
  have absent: "\<forall>e \<in> set [(RED, PyInt 1, [PyStr ''v'']), (black, PyInt 2, [PyStr ''v'']), (RED, PyInt 3, [PyStr ''v''])].
     key_equals_function (tree_of [2, 1, 3]) (PyInt 5) (fst (snd e)) = Inr False \<and>
     \<not> isl (key_comparator_function (tree_of [2, 1, 3]) (PyInt 5) (fst (snd e)))"
    by code_simp
  show ?thesis
    by (rule remove_value_absent_raises [OF nil nonempty it fuel absent])
qed


end
